theory Spec2Isabelle
  imports Complex_Main "HOL-Library.Option_ord"
begin

section \<open>Data model (models.py)\<close>

text \<open>
  Python floats are carried around by the program but never computed with: coordinates
  and temperatures are only compared against the form bounds and copied. They are
  modelled as reals. A \<open>datetime\<close> is a naive wall-clock instant with microsecond
  resolution; it is modelled as the integer number of microseconds since a fixed origin,
  so the difference of two instants (a \<open>timedelta\<close>) is an integer number of
  microseconds.
\<close>

type_synonym float = real
type_synonym datetime = int
type_synonym timedelta = int

text \<open>Table \<open>cities\<close>: the column \<open>id\<close> is called \<open>city_id\<close> here.\<close>

record City =
  city_id :: nat
  name :: string
  latitude :: float
  longitude :: float
  temperature :: "float option"
  updated_at :: "datetime option"

text \<open>Table \<open>default_cities\<close>: the same columns without temperature and update time.\<close>

record DefaultCity =
  default_id :: nat
  default_name :: string
  default_latitude :: float
  default_longitude :: float

text \<open>The database: the committed rows of both tables, in row order.\<close>

record db =
  cities :: "City list"
  default_cities :: "DefaultCity list"

section \<open>Exceptions and responses\<close>

text \<open>
  The \<open>detail\<close> of an \<open>HTTPException\<close> is one of the message templates of main.py,
  with the value formatted into it.
\<close>

datatype detail =
    WeatherApiStatus nat
  | NetworkRequestError string
  | ResponseFormatError string
  | DefaultCitiesEmpty
  | CityExists string
  | CooldownNotElapsed
  | NoCityData

text \<open>
  \<open>ClientError\<close> stands for \<open>aiohttp.ClientError\<close> and its subclasses (connection
  refused, DNS failure, a body that is not JSON by content type), \<open>TimeoutError\<close> for
  \<open>asyncio.TimeoutError\<close>, which aiohttp raises when the \<open>ClientTimeout(total=10)\<close>
  of the session is exceeded and which is not a subclass of \<open>aiohttp.ClientError\<close>.
  \<open>JSONDecodeError\<close> is what \<open>response.json()\<close> raises on a body that is not JSON,
  \<open>TypeError\<close> what a subscript with a string raises on a value that is not a
  dictionary, \<open>StatementError\<close> what SQLAlchemy raises at \<open>commit\<close> when a value
  cannot be bound to its column. \<open>RequestValidationError\<close> is what FastAPI raises when
  a form field violates its declared bounds.
\<close>

datatype exn =
    HTTPException nat detail
  | ClientError string
  | TimeoutError
  | KeyError string
  | TypeError
  | JSONDecodeError
  | StatementError
  | RequestValidationError

datatype response = RedirectResponse string nat

section \<open>Weather client: \<open>fetch_weather\<close>\<close>

text \<open>
  The Python value that \<open>response.json()\<close> parses a body into: \<open>None\<close>, a bool, a
  number, a string, a list, or a dictionary, given by its items in the order of the text.
\<close>

datatype json =
    JNull
  | JBool bool
  | JNum float
  | JStr string
  | JArr "json list"
  | JObj "(string \<times> json) list"

text \<open>
  \<open>value[key]\<close> with a string key: on a dictionary the value of the key (of its last
  occurrence in the text) or \<open>KeyError\<close>; on anything else \<open>TypeError\<close>.
\<close>

fun subscript :: "json \<Rightarrow> string \<Rightarrow> exn + json" where
  "subscript (JObj items) key =
     (case map_of (rev items) key of None \<Rightarrow> Inl (KeyError key) | Some v \<Rightarrow> Inr v)"
| "subscript v key = Inl TypeError"

text \<open>
  What one \<open>session.get(api_url)\<close> does: it raises, or it yields a response with a status
  whose \<open>json()\<close> raises or yields the parsed body.
\<close>

datatype json_result =
    JsonRaises exn
  | JsonBody json

datatype http_outcome =
    RequestRaises exn
  | Response nat json_result

text \<open>The body of the \<open>try\<close> block (main.py, lines 72 to 81).\<close>

fun try_body :: "http_outcome \<Rightarrow> exn + json" where
  "try_body (RequestRaises e) = Inl e"
| "try_body (Response status js) =
     (if status \<noteq> 200 then Inl (HTTPException 503 (WeatherApiStatus status))
      else case js of
          JsonRaises e \<Rightarrow> Inl e
        | JsonBody response_data \<Rightarrow>
            (case subscript response_data ''current_weather'' of
               Inl e \<Rightarrow> Inl e
             | Inr current_weather \<Rightarrow> subscript current_weather ''temperature''))"

text \<open>
  The two \<open>except\<close> clauses (lines 83 to 86): a \<open>ClientError\<close> and a \<open>KeyError\<close>
  become an \<open>HTTPException\<close> with status 500; every other exception propagates.
  The function returns whatever value the body has under the two keys.
\<close>

fun except_clauses :: "exn \<Rightarrow> exn" where
  "except_clauses (ClientError msg) = HTTPException 500 (NetworkRequestError msg)"
| "except_clauses (KeyError k) = HTTPException 500 (ResponseFormatError k)"
| "except_clauses e = e"

definition fetch_weather :: "(float \<Rightarrow> float \<Rightarrow> http_outcome) \<Rightarrow> float \<Rightarrow> float \<Rightarrow> exn + json" where
  "fetch_weather get latitude' longitude' =
     (case try_body (get latitude' longitude') of
        Inl e \<Rightarrow> Inl (except_clauses e)
      | Inr t \<Rightarrow> Inr t)"

text \<open>
  The failure names of the specification, read off the exceptions of the code: status 503
  with the API-status message, status 500 with the network message, status 500 with the
  format message.
\<close>

datatype failure = UpstreamUnavailable | NetworkError | MalformedResponse

fun classify :: "exn \<Rightarrow> failure option" where
  "classify (HTTPException sc (WeatherApiStatus s)) = (if sc = 503 then Some UpstreamUnavailable else None)"
| "classify (HTTPException sc (NetworkRequestError m)) = (if sc = 500 then Some NetworkError else None)"
| "classify (HTTPException sc (ResponseFormatError k)) = (if sc = 500 then Some MalformedResponse else None)"
| "classify e = None"

section \<open>Cooldown gate: \<open>check_update_cooldown\<close>\<close>

text \<open>\<open>timedelta.total_seconds()\<close>: microseconds divided by \<open>10\<^sup>6\<close>.\<close>

definition total_seconds :: "timedelta \<Rightarrow> real" where
  "total_seconds d = real_of_int d / 1000000"

text \<open>\<open>Query.first()\<close>: the first row, or \<open>None\<close> when there is none.\<close>

definition first :: "'a list \<Rightarrow> 'a option" where
  "first rows = (case rows of [] \<Rightarrow> None | r # _ \<Rightarrow> Some r)"

text \<open>
  \<open>db.query(City.updated_at).order_by(City.updated_at.desc())\<close>: SQLite orders NULL
  below every value, which is the order of \<open>option\<close> with \<open>None\<close> least, so the
  descending order lists the set timestamps from the latest down, then the NULLs.
\<close>

definition order_by_updated_at_desc :: "City list \<Rightarrow> datetime option list" where
  "order_by_updated_at_desc rows = rev (sort (map updated_at rows))"

definition check_update_cooldown :: "datetime \<Rightarrow> db \<Rightarrow> bool" where
  "check_update_cooldown now db =
     (case first (order_by_updated_at_desc (cities db)) of
        None \<Rightarrow> True
      | Some None \<Rightarrow> True
      | Some (Some last_updated) \<Rightarrow> 900 \<le> total_seconds (now - last_updated))"

text \<open>
  The gate in the words of the specification: over a sequence of optional timestamps,
  a refresh is permitted iff all are unset, or \<open>now\<close> minus the maximum set one is at
  least 900 seconds.
\<close>

definition canRefresh :: "datetime option list \<Rightarrow> datetime \<Rightarrow> bool" where
  "canRefresh lastUpdateTimestamps now =
     (let stamps = [t. Some t \<leftarrow> lastUpdateTimestamps]
      in if stamps = [] then True
         else 900 * 1000000 \<le> now - Max (set stamps))"

section \<open>Request handlers\<close>

text \<open>
  One run of a handler on the committed database: what it returns or raises, the
  committed database afterwards (a session that raises before \<open>commit\<close> is closed and
  leaves it as it was), and the coordinates for which \<open>fetch_weather\<close> was called.
\<close>

record run =
  returned :: "exn + response"
  db_after :: db
  fetch_calls :: "(float \<times> float) list"

subsection \<open>\<open>add_city\<close>\<close>

text \<open>
  \<open>str.strip()\<close>. A character is a code point below 256; the whitespace among them is
  9 to 13, 28 to 32, 133 (U+0085) and 160 (U+00A0).
\<close>

definition py_isspace :: "char \<Rightarrow> bool" where
  "py_isspace c = ((of_char c :: nat) \<in> {9, 10, 11, 12, 13, 28, 29, 30, 31, 32, 133, 160})"

definition strip :: "string \<Rightarrow> string" where
  "strip s = rev (dropWhile py_isspace (rev (dropWhile py_isspace s)))"

text \<open>The rowid SQLite gives a new row: one more than the largest in the table.\<close>

definition next_rowid :: "City list \<Rightarrow> nat" where
  "next_rowid rows = Suc (fold max (map city_id rows) 0)"

definition add_city :: "string \<Rightarrow> float \<Rightarrow> float \<Rightarrow> db \<Rightarrow> run" where
  "add_city name' latitude' longitude' db =
     (if \<not> (1 \<le> length name' \<and> length name' \<le> 50
             \<and> -90 \<le> latitude' \<and> latitude' \<le> 90
             \<and> -180 \<le> longitude' \<and> longitude' \<le> 180)
      then \<lparr>returned = Inl RequestValidationError, db_after = db, fetch_calls = []\<rparr>
      else if first (filter (\<lambda>c. name c = strip name') (cities db)) \<noteq> None
      then \<lparr>returned = Inl (HTTPException 400 (CityExists name')), db_after = db, fetch_calls = []\<rparr>
      else
        let new_city = \<lparr>city_id = next_rowid (cities db), name = strip name',
                        latitude = latitude', longitude = longitude',
                        temperature = None, updated_at = None\<rparr>
        in \<lparr>returned = Inr (RedirectResponse ''/'' 303),
            db_after = db\<lparr>cities := cities db @ [new_city]\<rparr>,
            fetch_calls = []\<rparr>)"

subsection \<open>\<open>reset_cities_to_default\<close> and \<open>reset_cities\<close>\<close>

definition reset_cities_to_default :: "db \<Rightarrow> exn + db" where
  "reset_cities_to_default db =
     (let default_cities' = default_cities db
      in if default_cities' = [] then Inl (HTTPException 500 DefaultCitiesEmpty)
         else Inr (db\<lparr>cities :=
                map (\<lambda>(i, default_city).
                      \<lparr>city_id = i, name = default_name default_city,
                       latitude = default_latitude default_city,
                       longitude = default_longitude default_city,
                       temperature = None, updated_at = None\<rparr>)
                    (enumerate 1 default_cities')\<rparr>))"

definition reset_cities :: "db \<Rightarrow> run" where
  "reset_cities db =
     (case reset_cities_to_default db of
        Inl e \<Rightarrow> \<lparr>returned = Inl e, db_after = db, fetch_calls = []\<rparr>
      | Inr db' \<Rightarrow> \<lparr>returned = Inr (RedirectResponse ''/'' 303), db_after = db', fetch_calls = []\<rparr>)"

subsection \<open>\<open>update_weather\<close>\<close>

text \<open>
  The world outside one \<open>update_weather\<close> request: what the request of the i-th task
  does, the tick at which the i-th task settles, and the two readings of
  \<open>datetime.now()\<close>, the one inside \<open>check_update_cooldown\<close> and the one after
  \<open>asyncio.gather\<close>. The last field is Python's \<open>float()\<close> on a string: the number
  the string denotes, or \<open>None\<close> where \<open>float()\<close> raises \<open>ValueError\<close>.
\<close>

record world =
  http_get :: "nat \<Rightarrow> float \<Rightarrow> float \<Rightarrow> http_outcome"
  settled :: "nat \<Rightarrow> nat"
  clock_gate :: datetime
  clock_write :: datetime
  float_of_str :: "string \<Rightarrow> float option"

text \<open>
  \<open>asyncio.gather(*tasks)\<close> without \<open>return_exceptions\<close>: when a task raises, the
  exception that was raised first propagates to the awaiter (among tasks settling at the
  same tick, the one earlier in the list); otherwise the results come back in the order
  of the tasks. Each task is given with the tick at which it settles.
\<close>

fun first_raised :: "(nat \<times> (exn + 'a)) list \<Rightarrow> (nat \<times> exn) option" where
  "first_raised [] = None"
| "first_raised ((t, Inr v) # rs) = first_raised rs"
| "first_raised ((t, Inl e) # rs) =
     (case first_raised rs of
        None \<Rightarrow> Some (t, e)
      | Some (t', e') \<Rightarrow> if t' < t then Some (t', e') else Some (t, e))"

fun results :: "(nat \<times> (exn + 'a)) list \<Rightarrow> 'a list" where
  "results [] = []"
| "results ((t, Inr v) # rs) = v # results rs"
| "results ((t, Inl e) # rs) = results rs"

definition gather :: "(nat \<times> (exn + 'a)) list \<Rightarrow> exn + 'a list" where
  "gather rs = (case first_raised rs of Some (t, e) \<Rightarrow> Inl e | None \<Rightarrow> Inr (results rs))"

text \<open>Line 292: one \<open>fetch_weather\<close> task per city, in the order of the query.\<close>

definition tasks :: "world \<Rightarrow> City list \<Rightarrow> (nat \<times> (exn + json)) list" where
  "tasks w cities' =
     map (\<lambda>(i, city). (settled w i, fetch_weather (http_get w i) (latitude city) (longitude city)))
         (enumerate 0 cities')"

text \<open>
  Lines 296 to 298: an \<open>HTTPException\<close> is raised again with the same status and
  detail; any other exception is not caught.
\<close>

fun reraise :: "exn \<Rightarrow> exn" where
  "reraise (HTTPException status_code d) = HTTPException status_code d"
| "reraise e = e"

text \<open>
  \<open>db.commit()\<close> binds each assigned temperature to the \<open>Float\<close> column: \<open>None\<close> is
  stored as NULL, every other value goes through \<open>float()\<close>, which raises on a list, on
  a dictionary and on a string that denotes no number; the commit then raises and
  nothing is written.
\<close>

fun to_float :: "(string \<Rightarrow> float option) \<Rightarrow> json \<Rightarrow> exn + float option" where
  "to_float f JNull = Inr None"
| "to_float f (JNum r) = Inr (Some r)"
| "to_float f (JBool b) = Inr (Some (if b then 1 else 0))"
| "to_float f (JStr s) = (case f s of None \<Rightarrow> Inl StatementError | Some r \<Rightarrow> Inr (Some r))"
| "to_float f (JArr vs) = Inl StatementError"
| "to_float f (JObj items) = Inl StatementError"

fun bind_all :: "(string \<Rightarrow> float option) \<Rightarrow> json list \<Rightarrow> exn + float option list" where
  "bind_all f [] = Inr []"
| "bind_all f (v # vs) =
     (case to_float f v of
        Inl e \<Rightarrow> Inl e
      | Inr x \<Rightarrow> (case bind_all f vs of Inl e \<Rightarrow> Inl e | Inr xs \<Rightarrow> Inr (x # xs)))"

text \<open>
  Lines 301 to 307: every city is assigned the value fetched for it and the one reading
  of the clock, then the session is committed.
\<close>

definition update_weather :: "world \<Rightarrow> db \<Rightarrow> run" where
  "update_weather w db =
     (if \<not> check_update_cooldown (clock_gate w) db
      then \<lparr>returned = Inl (HTTPException 400 CooldownNotElapsed), db_after = db, fetch_calls = []\<rparr>
      else
        let cities' = cities db
        in if cities' = []
           then \<lparr>returned = Inl (HTTPException 400 NoCityData), db_after = db, fetch_calls = []\<rparr>
           else
             (case gather (tasks w cities') of
                Inl e \<Rightarrow>
                  \<lparr>returned = Inl (reraise e), db_after = db,
                   fetch_calls = map (\<lambda>city. (latitude city, longitude city)) cities'\<rparr>
              | Inr temperatures \<Rightarrow>
                  let current_time = clock_write w
                  in (case bind_all (float_of_str w) temperatures of
                        Inl e \<Rightarrow>
                          \<lparr>returned = Inl e, db_after = db,
                           fetch_calls = map (\<lambda>city. (latitude city, longitude city)) cities'\<rparr>
                      | Inr bound \<Rightarrow>
                          \<lparr>returned = Inr (RedirectResponse ''/'' 303),
                           db_after = db\<lparr>cities :=
                             map (\<lambda>(city, temp). city\<lparr>temperature := temp, updated_at := Some current_time\<rparr>)
                                 (zip cities' bound)\<rparr>,
                           fetch_calls = map (\<lambda>city. (latitude city, longitude city)) cities'\<rparr>)))"

section \<open>The invariant of the store and the scenario of the specification\<close>

text \<open>A city has its temperature and its update time both unset or both set.\<close>

definition paired :: "City \<Rightarrow> bool" where
  "paired c = ((temperature c = None) = (updated_at c = None))"

definition store_invariant :: "db \<Rightarrow> bool" where
  "store_invariant db = list_all paired (cities db)"

text \<open>What the i-th task of a refresh over the rows \<open>cs\<close> yields.\<close>

definition fetched :: "world \<Rightarrow> City list \<Rightarrow> nat \<Rightarrow> exn + json" where
  "fetched w cs i = fetch_weather (http_get w i) (latitude (cs ! i)) (longitude (cs ! i))"

text \<open>
  Three cities with nothing fetched yet, and a weather service that answers by
  coordinates: 10.0 for Paris, 15.0 for Berlin, 20.0 for Rome.
\<close>

definition Paris :: City where
  "Paris = \<lparr>city_id = 1, name = ''Paris'', latitude = 48.85, longitude = 2.35,
            temperature = None, updated_at = None\<rparr>"

definition Berlin :: City where
  "Berlin = \<lparr>city_id = 2, name = ''Berlin'', latitude = 52.52, longitude = 13.4,
             temperature = None, updated_at = None\<rparr>"

definition Rome :: City where
  "Rome = \<lparr>city_id = 3, name = ''Rome'', latitude = 41.9, longitude = 12.5,
           temperature = None, updated_at = None\<rparr>"

text \<open>The default cities: Oslo and Madrid.\<close>

definition europe :: "DefaultCity list" where
  "europe = [\<lparr>default_id = 1, default_name = ''Oslo'', default_latitude = 59.91,
              default_longitude = 10.75\<rparr>,
             \<lparr>default_id = 2, default_name = ''Madrid'', default_latitude = 40.42,
              default_longitude = -3.7\<rparr>]"

definition three_cities :: db where
  "three_cities = \<lparr>cities = [Paris, Berlin, Rome], default_cities = europe\<rparr>"

definition one_city :: db where
  "one_city = \<lparr>cities = [Paris], default_cities = europe\<rparr>"

definition no_cities :: db where
  "no_cities = \<lparr>cities = [], default_cities = []\<rparr>"

text \<open>The three cities as a refresh at 2 s leaves them.\<close>

definition refreshed_cities :: db where
  "refreshed_cities =
     \<lparr>cities = [Paris\<lparr>temperature := Some 10, updated_at := Some 2000000\<rparr>,
                Berlin\<lparr>temperature := Some 15, updated_at := Some 2000000\<rparr>,
                Rome\<lparr>temperature := Some 20, updated_at := Some 2000000\<rparr>],
      default_cities = europe\<rparr>"

definition answer :: "float \<Rightarrow> http_outcome" where
  "answer t =
     Response 200 (JsonBody (JObj [(''current_weather'', JObj [(''temperature'', JNum t)])]))"

definition mock_get :: "nat \<Rightarrow> float \<Rightarrow> float \<Rightarrow> http_outcome" where
  "mock_get i la lo =
     (if la = 48.85 \<and> lo = 2.35 then answer 10
      else if la = 52.52 \<and> lo = 13.4 then answer 15
      else if la = 41.9 \<and> lo = 12.5 then answer 20
      else Response 404 (JsonRaises (ClientError ''not json'')))"

text \<open>The same service with Berlin unreachable.\<close>

definition berlin_down_get :: "nat \<Rightarrow> float \<Rightarrow> float \<Rightarrow> http_outcome" where
  "berlin_down_get i la lo =
     (if la = 52.52 \<and> lo = 13.4 then RequestRaises (ClientError ''connection refused'')
      else mock_get i la lo)"

text \<open>A service that does not answer within the 10 seconds of the session.\<close>

definition timeout_get :: "nat \<Rightarrow> float \<Rightarrow> float \<Rightarrow> http_outcome" where
  "timeout_get i la lo = RequestRaises TimeoutError"

text \<open>
  A service whose body is cut short, one that answers \<open>{"current_weather": null}\<close>, and
  one that answers \<open>{"current_weather": {"temperature": null}}\<close>.
\<close>

definition cut_short_get :: "nat \<Rightarrow> float \<Rightarrow> float \<Rightarrow> http_outcome" where
  "cut_short_get i la lo = Response 200 (JsonRaises JSONDecodeError)"

definition null_section_get :: "nat \<Rightarrow> float \<Rightarrow> float \<Rightarrow> http_outcome" where
  "null_section_get i la lo = Response 200 (JsonBody (JObj [(''current_weather'', JNull)]))"

definition null_temperature_get :: "nat \<Rightarrow> float \<Rightarrow> float \<Rightarrow> http_outcome" where
  "null_temperature_get i la lo =
     Response 200 (JsonBody (JObj [(''current_weather'', JObj [(''temperature'', JNull)])]))"

text \<open>
  No answer of these services carries a string, so what \<open>float()\<close> makes of strings
  plays no part in the scenarios; it is set to refuse them all.
\<close>

definition no_numeral :: "string \<Rightarrow> float option" where
  "no_numeral s = None"

text \<open>Readings of the clock in microseconds: the gate at 1 s, the write at 2 s.\<close>

definition mock_world :: world where
  "mock_world = \<lparr>http_get = mock_get, settled = id, clock_gate = 1000000,
                  clock_write = 2000000, float_of_str = no_numeral\<rparr>"

definition berlin_down_world :: world where
  "berlin_down_world = \<lparr>http_get = berlin_down_get, settled = id,
                        clock_gate = 1000000, clock_write = 2000000,
                        float_of_str = no_numeral\<rparr>"

definition timeout_world :: world where
  "timeout_world = \<lparr>http_get = timeout_get, settled = id,
                     clock_gate = 1000000, clock_write = 2000000,
                     float_of_str = no_numeral\<rparr>"

definition null_temperature_world :: world where
  "null_temperature_world = \<lparr>http_get = null_temperature_get, settled = id,
                     clock_gate = 1000000, clock_write = 2000000,
                     float_of_str = no_numeral\<rparr>"

text \<open>A second request, 899.999999 s after the write of the first.\<close>

definition later_world :: world where
  "later_world = \<lparr>http_get = mock_get, settled = id,
                   clock_gate = 901999999, clock_write = 902999999,
                   float_of_str = no_numeral\<rparr>"

section \<open>Lemmas about the gate\<close>

lemma last_sorted_Max: "sorted xs \<Longrightarrow> xs \<noteq> [] \<Longrightarrow> last xs = Max (set xs)"
proof (induction xs)
  case Nil
  then show ?case by simp
next
  case (Cons x xs)
  show ?case
  proof (cases "xs = []")
    case True
    then show ?thesis by simp
  next
    case False
    with Cons have ih: "last xs = Max (set xs)" by simp
    from Cons.prems have "\<forall>y\<in>set xs. x \<le> y" by simp
    moreover from False obtain y where "y \<in> set xs" by (cases xs) auto
    ultimately have "x \<le> Max (set xs)" by (meson Max_ge List.finite_set order_trans)
    with False ih show ?thesis by (simp add: max_absorb2)
  qed
qed

lemma first_rev_sort:
  "first (rev (sort xs)) = (if xs = [] then None else Some (Max (set xs)))"
proof (cases "xs = []")
  case True
  then show ?thesis by (simp add: first_def)
next
  case False
  then have ne: "sort xs \<noteq> []" by (metis length_sort length_0_conv)
  then have "first (rev (sort xs)) = Some (last (sort xs))"
    by (cases "rev (sort xs)") (auto simp: first_def dest: arg_cong[where f=hd] simp flip: hd_rev)
  also have "last (sort xs) = Max (set xs)"
    using last_sorted_Max[of "sort xs"] ne by simp
  finally show ?thesis using False by simp
qed

lemma set_Some_comprehension:
  "set [t. Some t \<leftarrow> xs] = {t. Some t \<in> set xs}"
  by (induction xs) (auto split: option.splits)

lemma Max_option_set:
  fixes S :: "int option set"
  assumes "finite S" "S \<noteq> {}"
  shows "Max S = (if {t. Some t \<in> S} = {} then None else Some (Max {t. Some t \<in> S}))"
proof (cases "{t. Some t \<in> S} = {}")
  case True
  then have "\<forall>x\<in>S. x = None" by (metis (mono_tags, lifting) empty_iff mem_Collect_eq not_None_eq)
  then have "S = {None}" using assms(2) by auto
  then show ?thesis using True by simp
next
  case False
  have fin: "finite {t. Some t \<in> S}"
    using finite_vimageI[OF assms(1), of Some] by (simp add: vimage_def)
  have "Max S = Some (Max {t. Some t \<in> S})"
  proof (rule Max_eqI[OF assms(1)])
    fix y assume "y \<in> S"
    then show "y \<le> Some (Max {t. Some t \<in> S})"
      using fin by (cases y) auto
  next
    from Max_in[OF fin False] show "Some (Max {t. Some t \<in> S}) \<in> S" by simp
  qed
  then show ?thesis using False by simp
qed

lemma total_seconds_ge: "(900 \<le> total_seconds d) = (900 * 1000000 \<le> d)"
proof -
  have "(900 \<le> real_of_int d / 1000000) = (real_of_int 900000000 \<le> real_of_int d)"
    by (simp add: field_simps)
  also have "\<dots> = (900000000 \<le> d)" by (rule of_int_le_iff)
  finally show ?thesis by (simp add: total_seconds_def)
qed

lemma check_update_cooldown_canRefresh:
  "check_update_cooldown now db = canRefresh (map updated_at (cities db)) now"
proof (cases "cities db = []")
  case True
  then show ?thesis
    by (simp add: check_update_cooldown_def canRefresh_def order_by_updated_at_desc_def first_def)
next
  case False
  let ?xs = "map updated_at (cities db)"
  from False have ne: "?xs \<noteq> []" by simp
  have fst: "first (order_by_updated_at_desc (cities db)) = Some (Max (set ?xs))"
    using ne by (simp add: order_by_updated_at_desc_def first_rev_sort)
  have mx: "Max (set ?xs) =
      (if [t. Some t \<leftarrow> ?xs] = [] then None else Some (Max (set [t. Some t \<leftarrow> ?xs])))"
    using Max_option_set[of "set ?xs"] ne
    by (simp only: set_Some_comprehension set_empty[symmetric] List.finite_set) simp
  show ?thesis
    unfolding check_update_cooldown_def canRefresh_def fst mx Let_def
    by (simp add: total_seconds_ge)
qed

lemma canRefresh_words:
  "canRefresh ts now =
     ((\<forall>t\<in>set ts. t = None) \<or> 900 * 1000000 \<le> now - Max {t. Some t \<in> set ts})"
proof -
  have E: "([t. Some t \<leftarrow> ts] = []) = (\<forall>t\<in>set ts. t = None)"
    by (induction ts) (auto split: option.splits)
  have G: "(if P then True else Q) = (P \<or> Q)" for P Q
    by simp
  show ?thesis
    unfolding canRefresh_def Let_def E set_Some_comprehension
    by (rule G)
qed

lemma check_update_cooldown_empty: "cities db = [] \<Longrightarrow> check_update_cooldown now db"
  by (simp add: check_update_cooldown_def order_by_updated_at_desc_def first_def)

lemma check_update_cooldown_all_stamped:
  assumes ne: "cities db \<noteq> []"
    and all: "\<forall>c\<in>set (cities db). updated_at c = Some t"
  shows "check_update_cooldown now db = (900 * 1000000 \<le> now - t)"
proof -
  from ne obtain c where c: "c \<in> set (cities db)" by (cases "cities db") auto
  have A: "{s. Some s \<in> set (map updated_at (cities db))} = {t}"
    using all c by force
  have B: "(\<forall>s\<in>set (map updated_at (cities db)). s = None) = False"
    using all c by force
  show ?thesis
    unfolding check_update_cooldown_canRefresh canRefresh_words A B
    by simp
qed

section \<open>Lemmas about \<open>gather\<close> and the tasks\<close>

lemma first_raised_None_iff:
  "first_raised rs = None \<longleftrightarrow> (\<forall>r\<in>set rs. \<exists>v. snd r = Inr v)"
  by (induction rs rule: first_raised.induct) (auto split: option.splits)

lemma first_raised_Some_mem:
  "first_raised rs = Some (t, e) \<Longrightarrow> (t, Inl e) \<in> set rs"
  by (induction rs arbitrary: t e rule: first_raised.induct)
     (auto split: option.splits if_splits)

lemma results_all_ok:
  "first_raised rs = None \<Longrightarrow> map snd rs = map Inr (results rs)"
  by (induction rs rule: first_raised.induct) (auto split: option.splits if_splits)

lemma gather_Inr: "gather rs = Inr vs \<Longrightarrow> map snd rs = map Inr vs"
  by (auto simp: gather_def results_all_ok split: option.splits)

lemma gather_Inl: "gather rs = Inl e \<Longrightarrow> \<exists>t. (t, Inl e) \<in> set rs"
  by (auto simp: gather_def split: option.splits dest: first_raised_Some_mem)

lemma gather_raises:
  assumes "(t, Inl e) \<in> set rs"
  shows "\<exists>e'. gather rs = Inl e'"
proof (cases "first_raised rs")
  case None
  with assms show ?thesis by (force simp: first_raised_None_iff)
next
  case (Some p)
  then show ?thesis by (cases p) (simp add: gather_def)
qed

lemma gather_all_ok:
  assumes "\<forall>r\<in>set rs. \<exists>v. snd r = Inr v"
  shows "\<exists>vs. gather rs = Inr vs"
  using assms by (simp add: gather_def flip: first_raised_None_iff)

lemma length_tasks: "length (tasks w cs) = length cs"
  by (simp add: tasks_def)

lemma nth_tasks:
  "i < length cs \<Longrightarrow> tasks w cs ! i = (settled w i, fetched w cs i)"
  by (simp add: tasks_def fetched_def nth_enumerate_eq)

lemma tasks_mem:
  "r \<in> set (tasks w cs) \<Longrightarrow> \<exists>i<length cs. r = (settled w i, fetched w cs i)"
  by (metis in_set_conv_nth length_tasks nth_tasks)

lemma gather_tasks_Inr:
  assumes "gather (tasks w cs) = Inr ts"
  shows "length ts = length cs \<and> (\<forall>i<length cs. fetched w cs i = Inr (ts ! i))"
proof -
  from gather_Inr[OF assms] have eq: "map snd (tasks w cs) = map Inr ts" .
  then have len: "length ts = length cs"
    by (metis length_map length_tasks)
  have "fetched w cs i = Inr (ts ! i)" if "i < length cs" for i
  proof -
    have "map snd (tasks w cs) ! i = map Inr ts ! i" using eq by simp
    with that len show ?thesis by (simp add: length_tasks nth_tasks)
  qed
  with len show ?thesis by blast
qed

lemma gather_tasks_Inl:
  assumes "gather (tasks w cs) = Inl e"
  shows "\<exists>i<length cs. fetched w cs i = Inl e"
proof -
  from gather_Inl[OF assms] obtain t where "(t, Inl e) \<in> set (tasks w cs)" ..
  from tasks_mem[OF this] show ?thesis by auto
qed

lemma gather_tasks_raises:
  assumes "i < length cs" and "fetched w cs i = Inl e"
  shows "\<exists>e'. gather (tasks w cs) = Inl e'"
proof -
  have "(settled w i, Inl e) \<in> set (tasks w cs)"
    using assms by (metis length_tasks nth_mem nth_tasks)
  then show ?thesis by (rule gather_raises)
qed

lemma gather_tasks_all_ok:
  assumes "\<forall>i<length cs. \<exists>t. fetched w cs i = Inr t"
  shows "\<exists>ts. gather (tasks w cs) = Inr ts"
proof (rule gather_all_ok, rule ballI)
  fix r assume "r \<in> set (tasks w cs)"
  from tasks_mem[OF this] assms show "\<exists>v. snd r = Inr v" by auto
qed

lemma reraise_id: "reraise e = e"
  by (cases e) simp_all

section \<open>Lemmas about the commit\<close>

lemma bind_all_Inr:
  "bind_all f vs = Inr xs \<Longrightarrow>
   length xs = length vs \<and> (\<forall>i<length vs. to_float f (vs ! i) = Inr (xs ! i))"
proof (induction vs arbitrary: xs)
  case Nil
  then show ?case by simp
next
  case (Cons v vs)
  from Cons.prems obtain x ys where x: "to_float f v = Inr x"
    and ys: "bind_all f vs = Inr ys" and xs: "xs = x # ys"
    by (auto split: sum.splits)
  from Cons.IH[OF ys] x xs show ?case
    by (auto simp: nth_Cons split: nat.splits)
qed

lemma bind_all_Inl: "bind_all f vs = Inl e \<Longrightarrow> \<exists>v\<in>set vs. to_float f v = Inl e"
  by (induction vs) (auto split: sum.splits)

lemma bind_all_ok:
  "\<forall>v\<in>set vs. \<exists>x. to_float f v = Inr x \<Longrightarrow> \<exists>xs. bind_all f vs = Inr xs"
  by (induction vs) (auto split: sum.splits)

lemma bind_all_numbers:
  assumes "\<forall>i<length vs. vs ! i = JNum (ts ! i)" and "length ts = length vs"
  shows "bind_all f vs = Inr (map Some ts)"
  using assms
proof (induction vs arbitrary: ts)
  case Nil
  then show ?case by simp
next
  case (Cons v vs)
  then obtain t ts' where ts: "ts = t # ts'" by (cases ts) auto
  from Cons.prems ts have v: "v = JNum t" by auto
  from Cons.prems ts have "\<forall>i<length vs. vs ! i = JNum (ts' ! i)" by auto
  moreover from Cons.prems ts have "length ts' = length vs" by simp
  ultimately have "bind_all f vs = Inr (map Some ts')" by (rule Cons.IH)
  with v ts show ?case by simp
qed

section \<open>The ways \<open>update_weather\<close> ends\<close>

lemma update_weather_refused:
  "\<not> check_update_cooldown (clock_gate w) db \<Longrightarrow>
   update_weather w db =
     \<lparr>returned = Inl (HTTPException 400 CooldownNotElapsed), db_after = db, fetch_calls = []\<rparr>"
  by (simp add: update_weather_def)

lemma update_weather_empty:
  "cities db = [] \<Longrightarrow>
   update_weather w db =
     \<lparr>returned = Inl (HTTPException 400 NoCityData), db_after = db, fetch_calls = []\<rparr>"
  by (simp add: update_weather_def check_update_cooldown_empty)

lemma update_weather_raised:
  "check_update_cooldown (clock_gate w) db \<Longrightarrow> cities db \<noteq> [] \<Longrightarrow>
   gather (tasks w (cities db)) = Inl e \<Longrightarrow>
   update_weather w db =
     \<lparr>returned = Inl e, db_after = db,
      fetch_calls = map (\<lambda>city. (latitude city, longitude city)) (cities db)\<rparr>"
  by (simp add: update_weather_def reraise_id)

lemma update_weather_unbound:
  "check_update_cooldown (clock_gate w) db \<Longrightarrow> cities db \<noteq> [] \<Longrightarrow>
   gather (tasks w (cities db)) = Inr vs \<Longrightarrow> bind_all (float_of_str w) vs = Inl e \<Longrightarrow>
   update_weather w db =
     \<lparr>returned = Inl e, db_after = db,
      fetch_calls = map (\<lambda>city. (latitude city, longitude city)) (cities db)\<rparr>"
  by (simp add: update_weather_def Let_def)

lemma update_weather_written:
  "check_update_cooldown (clock_gate w) db \<Longrightarrow> cities db \<noteq> [] \<Longrightarrow>
   gather (tasks w (cities db)) = Inr vs \<Longrightarrow> bind_all (float_of_str w) vs = Inr xs \<Longrightarrow>
   update_weather w db =
     \<lparr>returned = Inr (RedirectResponse ''/'' 303),
      db_after = db\<lparr>cities :=
        map (\<lambda>(city, temp). city\<lparr>temperature := temp, updated_at := Some (clock_write w)\<rparr>)
            (zip (cities db) xs)\<rparr>,
      fetch_calls = map (\<lambda>city. (latitude city, longitude city)) (cities db)\<rparr>"
  by (simp add: update_weather_def Let_def)

lemma update_weather_cases:
  obtains
    (refused) "\<not> check_update_cooldown (clock_gate w) db"
  | (empty) "check_update_cooldown (clock_gate w) db" "cities db = []"
  | (raised) e where "check_update_cooldown (clock_gate w) db" "cities db \<noteq> []"
      "gather (tasks w (cities db)) = Inl e"
  | (unbound) vs e where "check_update_cooldown (clock_gate w) db" "cities db \<noteq> []"
      "gather (tasks w (cities db)) = Inr vs" "bind_all (float_of_str w) vs = Inl e"
  | (written) vs xs where "check_update_cooldown (clock_gate w) db" "cities db \<noteq> []"
      "gather (tasks w (cities db)) = Inr vs" "bind_all (float_of_str w) vs = Inr xs"
proof (cases "gather (tasks w (cities db))")
  case (Inl e)
  then show ?thesis using refused empty raised by blast
next
  case (Inr vs)
  then show ?thesis
    using refused empty unbound written by (cases "bind_all (float_of_str w) vs") blast+
qed

text \<open>A refresh that returns has written every row, with one timestamp.\<close>

lemma update_weather_returns:
  assumes "returned (update_weather w db) = Inr r"
  shows "\<exists>vs xs. check_update_cooldown (clock_gate w) db \<and> cities db \<noteq> []
           \<and> gather (tasks w (cities db)) = Inr vs \<and> bind_all (float_of_str w) vs = Inr xs"
proof (cases rule: update_weather_cases[of w db])
  case refused
  with assms show ?thesis by (simp add: update_weather_refused)
next
  case empty
  with assms show ?thesis by (simp add: update_weather_empty)
next
  case (raised e)
  with assms show ?thesis by (simp add: update_weather_raised)
next
  case (unbound vs e)
  with assms show ?thesis by (simp add: update_weather_unbound)
next
  case (written vs xs)
  then show ?thesis by blast
qed

text \<open>
  A refresh in which the gate permits and every fetch returns a number: the numbers come
  back in the order of the cities and every city is written with its own.
\<close>

lemma update_weather_numbers:
  assumes gate: "check_update_cooldown (clock_gate w) db"
    and ne: "cities db \<noteq> []"
    and ok: "\<forall>i<length (cities db). \<exists>t. fetched w (cities db) i = Inr (JNum t)"
  shows "\<exists>ts. length ts = length (cities db)
    \<and> (\<forall>i<length (cities db). fetched w (cities db) i = Inr (JNum (ts ! i)))
    \<and> update_weather w db =
       \<lparr>returned = Inr (RedirectResponse ''/'' 303),
        db_after = db\<lparr>cities :=
          map (\<lambda>(city, temp). city\<lparr>temperature := temp, updated_at := Some (clock_write w)\<rparr>)
              (zip (cities db) (map Some ts))\<rparr>,
        fetch_calls = map (\<lambda>city. (latitude city, longitude city)) (cities db)\<rparr>"
proof -
  from ok have "\<forall>i<length (cities db). \<exists>v. fetched w (cities db) i = Inr v" by blast
  from gather_tasks_all_ok[OF this]
  obtain vs where g: "gather (tasks w (cities db)) = Inr vs" ..
  from gather_tasks_Inr[OF g]
  have len: "length vs = length (cities db)"
    and nth: "\<forall>i<length (cities db). fetched w (cities db) i = Inr (vs ! i)" by simp_all
  from ok nth have num: "\<forall>i<length vs. \<exists>t. vs ! i = JNum t"
    unfolding len by (metis Inr_inject)
  define ts where "ts = map (\<lambda>v. case v of JNum t \<Rightarrow> t | _ \<Rightarrow> 0) vs"
  have lts: "length ts = length vs" by (simp add: ts_def)
  have vts: "\<forall>i<length vs. vs ! i = JNum (ts ! i)"
    using num by (auto simp: ts_def)
  from bind_all_numbers[OF vts lts]
  have b: "bind_all (float_of_str w) vs = Inr (map Some ts)" .
  from update_weather_written[OF gate ne g b] lts len vts nth show ?thesis
    by (intro exI[of _ ts]) auto
qed

lemma written_nth:
  "length xs = length cs \<Longrightarrow> i < length cs \<Longrightarrow>
   map (\<lambda>(city, temp). city\<lparr>temperature := temp, updated_at := Some now\<rparr>) (zip cs xs) ! i
     = (cs ! i)\<lparr>temperature := xs ! i, updated_at := Some now\<rparr>"
  by simp

lemma written_all_stamped:
  "c \<in> set (map (\<lambda>(city, temp). city\<lparr>temperature := temp, updated_at := Some now\<rparr>) (zip cs xs))
   \<Longrightarrow> updated_at c = Some now"
  by auto

section \<open>Weather client\<close>

text \<open>
  What \<open>fetch_weather\<close> does with each outcome of the request: a status other than 200
  is the 503 of the API-status message; a \<open>ClientError\<close> of the transport is the 500 of
  the network message; a dictionary without \<open>current_weather\<close>, or whose
  \<open>current_weather\<close> is a dictionary without \<open>temperature\<close>, is the 500 of the format
  message.
\<close>

lemma fetch_weather_classified:
  "(get la lo = Response status js \<and> status \<noteq> 200 \<longrightarrow>
      fetch_weather get la lo = Inl (HTTPException 503 (WeatherApiStatus status))
      \<and> classify (HTTPException 503 (WeatherApiStatus status)) = Some UpstreamUnavailable)
   \<and> (get la lo = RequestRaises (ClientError msg) \<longrightarrow>
      fetch_weather get la lo = Inl (HTTPException 500 (NetworkRequestError msg))
      \<and> classify (HTTPException 500 (NetworkRequestError msg)) = Some NetworkError)
   \<and> (get la lo = Response 200 (JsonBody body)
        \<and> subscript body ''current_weather'' = Inr (JObj items)
        \<and> map_of (rev items) ''temperature'' = None \<longrightarrow>
      fetch_weather get la lo = Inl (HTTPException 500 (ResponseFormatError ''temperature''))
      \<and> classify (HTTPException 500 (ResponseFormatError ''temperature'')) = Some MalformedResponse)"
  by (simp add: fetch_weather_def)

text \<open>
  C5. A request that exceeds the 10-second bound of the session ends in
  \<open>asyncio.TimeoutError\<close>. Neither \<open>except\<close> clause of \<open>fetch_weather\<close> matches it: it
  leaves the function as it is, not as the 500 of the network message, it is none of
  the three failure classes, and \<open>update_weather\<close> does not catch it either. The same
  holds for the \<open>JSONDecodeError\<close> of a body that is cut short and for the
  \<open>TypeError\<close> of a body whose \<open>current_weather\<close> is null.
\<close>

theorem fetch_weather_timeout_escapes:
  "fetch_weather (timeout_get 0) (latitude Paris) (longitude Paris) = Inl TimeoutError
   \<and> classify TimeoutError = None
   \<and> returned (update_weather timeout_world one_city) = Inl TimeoutError
   \<and> db_after (update_weather timeout_world one_city) = one_city
   \<and> fetch_weather (cut_short_get 0) (latitude Paris) (longitude Paris) = Inl JSONDecodeError
   \<and> classify JSONDecodeError = None
   \<and> fetch_weather (null_section_get 0) (latitude Paris) (longitude Paris) = Inl TypeError
   \<and> classify TypeError = None"
proof -
  have gate: "check_update_cooldown 1000000 one_city"
    by (simp add: check_update_cooldown_def order_by_updated_at_desc_def first_def
        one_city_def Paris_def)
  show ?thesis
    using gate
    by (simp add: fetch_weather_def update_weather_def timeout_world_def timeout_get_def
        cut_short_get_def null_section_get_def one_city_def gather_def tasks_def
        enumerate_eq_zip)
qed

section \<open>Cooldown gate\<close>

text \<open>
  C2. The gate permits a refresh exactly when every \<open>updated_at\<close> of the store is unset
  (in particular when the store is empty) or the time from the latest set one to \<open>now\<close>
  is at least 900 seconds, the bound included. It is the \<open>canRefresh\<close> of the
  specification on the sequence of the cities' timestamps.
\<close>

theorem cooldown_gate_permits_iff:
  "(check_update_cooldown now db \<longleftrightarrow>
      (\<forall>c\<in>set (cities db). updated_at c = None)
      \<or> 900 \<le> total_seconds (now - Max {t. Some t \<in> set (map updated_at (cities db))}))
   \<and> check_update_cooldown now db = canRefresh (map updated_at (cities db)) now"
proof -
  have "check_update_cooldown now db \<longleftrightarrow>
      (\<forall>t\<in>set (map updated_at (cities db)). t = None)
      \<or> 900 * 1000000 \<le> now - Max {t. Some t \<in> set (map updated_at (cities db))}"
    unfolding check_update_cooldown_canRefresh by (rule canRefresh_words)
  then show ?thesis
    by (simp add: total_seconds_ge check_update_cooldown_canRefresh)
qed

theorem cooldown_gate_permits_iff_witness:
  "check_update_cooldown 902000000 refreshed_cities
   \<and> \<not> check_update_cooldown 901999999 refreshed_cities
   \<and> check_update_cooldown 0 three_cities
   \<and> check_update_cooldown 0 no_cities"
  using cooldown_gate_permits_iff[of 902000000 refreshed_cities]
    cooldown_gate_permits_iff[of 901999999 refreshed_cities]
    cooldown_gate_permits_iff[of 0 three_cities]
    cooldown_gate_permits_iff[of 0 no_cities]
  by (simp add: canRefresh_def total_seconds_def refreshed_cities_def three_cities_def
      no_cities_def Paris_def Berlin_def Rome_def)

section \<open>Refresh orchestrator\<close>

text \<open>
  C1. When the gate permits and the fetch of some city fails, the refresh raises the
  exception of a failed fetch and commits nothing: the store is as it was. In every run,
  the store afterwards is either unchanged or has every city written: each city of the
  store with a temperature value and the timestamp of this run in place of its old ones.
\<close>

theorem refresh_all_or_nothing:
  "(check_update_cooldown (clock_gate w) db \<and> i < length (cities db)
      \<and> fetched w (cities db) i = Inl e \<longrightarrow>
      (\<exists>j<length (cities db). \<exists>e'. fetched w (cities db) j = Inl e'
          \<and> returned (update_weather w db) = Inl e'
          \<and> db_after (update_weather w db) = db))
   \<and> (db_after (update_weather w db) = db
      \<or> (length (cities (db_after (update_weather w db))) = length (cities db)
         \<and> (\<forall>c\<in>set (cities (db_after (update_weather w db))).
               updated_at c = Some (clock_write w))
         \<and> (\<exists>xs. length xs = length (cities db)
               \<and> cities (db_after (update_weather w db)) =
                   map (\<lambda>(city, temp). city\<lparr>temperature := temp, updated_at := Some (clock_write w)\<rparr>)
                       (zip (cities db) xs))))"
proof (intro conjI impI)
  assume h: "check_update_cooldown (clock_gate w) db \<and> i < length (cities db)
      \<and> fetched w (cities db) i = Inl e"
  then have ne: "cities db \<noteq> []" by auto
  from h gather_tasks_raises[of i "cities db" w e]
  obtain e' where g: "gather (tasks w (cities db)) = Inl e'" by blast
  from gather_tasks_Inl[OF g]
  obtain j where j: "j < length (cities db)" "fetched w (cities db) j = Inl e'" by blast
  from h ne g have "update_weather w db =
      \<lparr>returned = Inl e', db_after = db,
       fetch_calls = map (\<lambda>city. (latitude city, longitude city)) (cities db)\<rparr>"
    by (simp add: update_weather_raised)
  with j show "\<exists>j<length (cities db). \<exists>e'. fetched w (cities db) j = Inl e'
      \<and> returned (update_weather w db) = Inl e' \<and> db_after (update_weather w db) = db"
    by auto
next
  show "db_after (update_weather w db) = db
      \<or> (length (cities (db_after (update_weather w db))) = length (cities db)
         \<and> (\<forall>c\<in>set (cities (db_after (update_weather w db))).
               updated_at c = Some (clock_write w))
         \<and> (\<exists>xs. length xs = length (cities db)
               \<and> cities (db_after (update_weather w db)) =
                   map (\<lambda>(city, temp). city\<lparr>temperature := temp, updated_at := Some (clock_write w)\<rparr>)
                       (zip (cities db) xs)))"
  proof (cases rule: update_weather_cases[of w db])
    case refused
    then show ?thesis by (simp add: update_weather_refused)
  next
    case empty
    then show ?thesis by (simp add: update_weather_empty)
  next
    case (raised e)
    then show ?thesis by (simp add: update_weather_raised)
  next
    case (unbound vs e)
    then show ?thesis by (simp add: update_weather_unbound)
  next
    case (written vs xs)
    from gather_tasks_Inr[OF written(3)] bind_all_Inr[OF written(4)]
    have len: "length xs = length (cities db)" by simp
    have dba: "cities (db_after (update_weather w db)) =
        map (\<lambda>(city, temp). city\<lparr>temperature := temp, updated_at := Some (clock_write w)\<rparr>)
            (zip (cities db) xs)"
      using written by (simp add: update_weather_written)
    have "length (cities (db_after (update_weather w db))) = length (cities db)"
      unfolding dba using len by simp
    moreover have "\<forall>c\<in>set (cities (db_after (update_weather w db))).
        updated_at c = Some (clock_write w)"
      unfolding dba using written_all_stamped by blast
    ultimately show ?thesis using len dba by blast
  qed
qed

theorem refresh_all_or_nothing_witness:
  "check_update_cooldown (clock_gate berlin_down_world) three_cities
   \<and> (1::nat) < length (cities three_cities)
   \<and> fetched berlin_down_world (cities three_cities) 1
       = Inl (HTTPException 500 (NetworkRequestError ''connection refused''))
   \<and> returned (update_weather berlin_down_world three_cities)
       = Inl (HTTPException 500 (NetworkRequestError ''connection refused''))
   \<and> db_after (update_weather berlin_down_world three_cities) = three_cities"
proof -
  let ?e = "HTTPException 500 (NetworkRequestError ''connection refused'')"
  have gate: "check_update_cooldown (clock_gate berlin_down_world) three_cities"
    by (simp add: check_update_cooldown_def order_by_updated_at_desc_def first_def
        three_cities_def Paris_def Berlin_def Rome_def)
  have len: "(1::nat) < length (cities three_cities)"
    by (simp add: three_cities_def)
  have f0: "fetched berlin_down_world (cities three_cities) 0 = Inr (JNum 10)"
    by (simp add: fetched_def fetch_weather_def berlin_down_world_def berlin_down_get_def
        mock_get_def answer_def three_cities_def Paris_def)
  have f1: "fetched berlin_down_world (cities three_cities) 1 = Inl ?e"
    by (simp add: fetched_def fetch_weather_def berlin_down_world_def berlin_down_get_def
        three_cities_def Berlin_def)
  have f2: "fetched berlin_down_world (cities three_cities) 2 = Inr (JNum 20)"
    by (simp add: fetched_def fetch_weather_def berlin_down_world_def berlin_down_get_def
        mock_get_def answer_def three_cities_def Rome_def)
  from refresh_all_or_nothing[of berlin_down_world three_cities 1 ?e] gate len f1
  obtain j e' where j: "j < length (cities three_cities)"
      "fetched berlin_down_world (cities three_cities) j = Inl e'"
      "returned (update_weather berlin_down_world three_cities) = Inl e'"
      "db_after (update_weather berlin_down_world three_cities) = three_cities"
    by blast
  from j(1) have "j = 0 \<or> j = 1 \<or> j = 2"
    by (auto simp: three_cities_def)
  with j(2) f0 f1 f2 have "e' = ?e" by auto
  with gate len f1 j show ?thesis by simp
qed

text \<open>
  C3. When the gate permits and every fetch succeeds, returning its temperature, the
  store keeps its cities in order, the i-th city receives the temperature of the i-th
  fetch together with the one reading of the clock taken after \<open>gather\<close>, and so all
  cities carry the same \<open>updated_at\<close>.
\<close>

theorem refresh_success_single_timestamp:
  assumes "check_update_cooldown (clock_gate w) db"
    and "cities db \<noteq> []"
    and "\<forall>i<length (cities db). \<exists>t. fetched w (cities db) i = Inr (JNum t)"
  shows "length (cities (db_after (update_weather w db))) = length (cities db)
    \<and> (\<forall>i<length (cities db). \<exists>t. fetched w (cities db) i = Inr (JNum t)
          \<and> cities (db_after (update_weather w db)) ! i
              = (cities db ! i)\<lparr>temperature := Some t, updated_at := Some (clock_write w)\<rparr>)
    \<and> (\<forall>c\<in>set (cities (db_after (update_weather w db))). updated_at c = Some (clock_write w))
    \<and> default_cities (db_after (update_weather w db)) = default_cities db"
proof -
  from update_weather_numbers[OF assms]
  obtain ts where len: "length ts = length (cities db)"
    and nth: "\<forall>i<length (cities db). fetched w (cities db) i = Inr (JNum (ts ! i))"
    and run: "db_after (update_weather w db) = db\<lparr>cities :=
        map (\<lambda>(city, temp). city\<lparr>temperature := temp, updated_at := Some (clock_write w)\<rparr>)
            (zip (cities db) (map Some ts))\<rparr>"
    by auto
  have "length (cities (db_after (update_weather w db))) = length (cities db)"
    unfolding run using len by simp
  moreover have "\<forall>i<length (cities db). \<exists>t. fetched w (cities db) i = Inr (JNum t)
          \<and> cities (db_after (update_weather w db)) ! i
              = (cities db ! i)\<lparr>temperature := Some t, updated_at := Some (clock_write w)\<rparr>"
    unfolding run using len nth by simp
  moreover have "\<forall>c\<in>set (cities (db_after (update_weather w db))). updated_at c = Some (clock_write w)"
    unfolding run by auto
  moreover have "default_cities (db_after (update_weather w db)) = default_cities db"
    unfolding run by simp
  ultimately show ?thesis by blast
qed

theorem refresh_success_single_timestamp_witness:
  "check_update_cooldown (clock_gate mock_world) three_cities
   \<and> cities three_cities \<noteq> []
   \<and> map (fetched mock_world (cities three_cities)) [0, 1, 2]
       = [Inr (JNum 10), Inr (JNum 15), Inr (JNum 20)]
   \<and> length (cities (db_after (update_weather mock_world three_cities))) = 3
   \<and> list_all (\<lambda>c. updated_at c = Some 2000000)
        (cities (db_after (update_weather mock_world three_cities)))"
proof -
  have gate: "check_update_cooldown (clock_gate mock_world) three_cities"
    by (simp add: check_update_cooldown_def order_by_updated_at_desc_def first_def
        three_cities_def Paris_def Berlin_def Rome_def)
  have ne: "cities three_cities \<noteq> []"
    by (simp add: three_cities_def)
  have f: "map (fetched mock_world (cities three_cities)) [0, 1, 2]
      = [Inr (JNum 10), Inr (JNum 15), Inr (JNum 20)]"
    by (simp add: fetched_def fetch_weather_def mock_world_def mock_get_def answer_def
        three_cities_def Paris_def Berlin_def Rome_def)
  have ok: "\<forall>i<length (cities three_cities). \<exists>t. fetched mock_world (cities three_cities) i = Inr (JNum t)"
    by (simp add: fetched_def fetch_weather_def mock_world_def mock_get_def answer_def
        three_cities_def Paris_def Berlin_def Rome_def All_less_Suc2 numeral_3_eq_3)
  from refresh_success_single_timestamp[OF gate ne ok] gate ne f show ?thesis
    by (simp add: three_cities_def mock_world_def list_all_iff)
qed

text \<open>
  C4. When the gate refuses, the request raises the 400 of the cooldown message; no
  \<open>fetch_weather\<close> is called and the store is left exactly as it was.
\<close>

theorem refresh_refused_touches_nothing:
  "\<not> check_update_cooldown (clock_gate w) db \<Longrightarrow>
   update_weather w db =
     \<lparr>returned = Inl (HTTPException 400 CooldownNotElapsed), db_after = db, fetch_calls = []\<rparr>"
  by (simp add: update_weather_def)

theorem refresh_refused_touches_nothing_witness:
  "\<not> check_update_cooldown (clock_gate later_world) refreshed_cities
   \<and> update_weather later_world refreshed_cities =
       \<lparr>returned = Inl (HTTPException 400 CooldownNotElapsed), db_after = refreshed_cities,
        fetch_calls = []\<rparr>"
proof -
  have "check_update_cooldown (clock_gate later_world) refreshed_cities
      = (900 * 1000000 \<le> clock_gate later_world - 2000000)"
    by (rule check_update_cooldown_all_stamped)
       (simp_all add: refreshed_cities_def)
  then have refused: "\<not> check_update_cooldown (clock_gate later_world) refreshed_cities"
    by (simp add: later_world_def)
  from refresh_refused_touches_nothing[OF refused] refused show ?thesis by simp
qed

text \<open>
  C6 (as the code has it). A refresh in which the gate permits and every fetch returns
  its temperature returns the redirect to \<open>/\<close> with status 303, which carries no count;
  every city of the store is written with the temperature fetched for it and the
  timestamp of the run, so the store has as many cities as before, all of them updated.
\<close>

theorem refresh_success_redirects:
  assumes "check_update_cooldown (clock_gate w) db"
    and "cities db \<noteq> []"
    and "\<forall>i<length (cities db). \<exists>t. fetched w (cities db) i = Inr (JNum t)"
  shows "returned (update_weather w db) = Inr (RedirectResponse ''/'' 303)
    \<and> length (cities (db_after (update_weather w db))) = length (cities db)
    \<and> (\<forall>i<length (cities db). \<exists>t. fetched w (cities db) i = Inr (JNum t)
          \<and> cities (db_after (update_weather w db)) ! i
              = (cities db ! i)\<lparr>temperature := Some t, updated_at := Some (clock_write w)\<rparr>)
    \<and> fetch_calls (update_weather w db) = map (\<lambda>city. (latitude city, longitude city)) (cities db)"
proof -
  from update_weather_numbers[OF assms]
  obtain ts where len: "length ts = length (cities db)"
    and nth: "\<forall>i<length (cities db). fetched w (cities db) i = Inr (JNum (ts ! i))"
    and run: "update_weather w db =
       \<lparr>returned = Inr (RedirectResponse ''/'' 303),
        db_after = db\<lparr>cities :=
          map (\<lambda>(city, temp). city\<lparr>temperature := temp, updated_at := Some (clock_write w)\<rparr>)
              (zip (cities db) (map Some ts))\<rparr>,
        fetch_calls = map (\<lambda>city. (latitude city, longitude city)) (cities db)\<rparr>"
    by auto
  have "returned (update_weather w db) = Inr (RedirectResponse ''/'' 303)"
    unfolding run by simp
  moreover have "length (cities (db_after (update_weather w db))) = length (cities db)"
    unfolding run using len by simp
  moreover have "\<forall>i<length (cities db). \<exists>t. fetched w (cities db) i = Inr (JNum t)
          \<and> cities (db_after (update_weather w db)) ! i
              = (cities db ! i)\<lparr>temperature := Some t, updated_at := Some (clock_write w)\<rparr>"
    unfolding run using len nth by simp
  moreover have "fetch_calls (update_weather w db)
      = map (\<lambda>city. (latitude city, longitude city)) (cities db)"
    unfolding run by simp
  ultimately show ?thesis by blast
qed

theorem refresh_success_redirects_witness:
  "check_update_cooldown (clock_gate mock_world) one_city
   \<and> cities one_city \<noteq> []
   \<and> fetched mock_world (cities one_city) 0 = Inr (JNum 10)
   \<and> returned (update_weather mock_world one_city) = Inr (RedirectResponse ''/'' 303)
   \<and> cities (db_after (update_weather mock_world one_city))
       = [Paris\<lparr>temperature := Some 10, updated_at := Some 2000000\<rparr>]"
proof -
  have gate: "check_update_cooldown (clock_gate mock_world) one_city"
    by (simp add: check_update_cooldown_def order_by_updated_at_desc_def first_def
        one_city_def Paris_def)
  have ne: "cities one_city \<noteq> []"
    by (simp add: one_city_def)
  have f: "fetched mock_world (cities one_city) 0 = Inr (JNum 10)"
    by (simp add: fetched_def fetch_weather_def mock_world_def mock_get_def answer_def
        one_city_def Paris_def)
  have ok: "\<forall>i<length (cities one_city). \<exists>t. fetched mock_world (cities one_city) i = Inr (JNum t)"
    using f by (simp add: one_city_def)
  have c: "cities one_city = [Paris]" "clock_write mock_world = 2000000"
    by (simp_all add: one_city_def mock_world_def)
  from refresh_success_redirects[OF gate ne ok]
  have r: "returned (update_weather mock_world one_city) = Inr (RedirectResponse ''/'' 303)"
    and l: "length (cities (db_after (update_weather mock_world one_city))) = length (cities one_city)"
    and n: "\<forall>i<length (cities one_city). \<exists>t. fetched mock_world (cities one_city) i = Inr (JNum t)
          \<and> cities (db_after (update_weather mock_world one_city)) ! i
              = (cities one_city ! i)\<lparr>temperature := Some t, updated_at := Some (clock_write mock_world)\<rparr>"
    by blast+
  from n f have "cities (db_after (update_weather mock_world one_city)) ! 0
      = Paris\<lparr>temperature := Some 10, updated_at := Some 2000000\<rparr>"
    by (simp add: c)
  moreover from l have "length (cities (db_after (update_weather mock_world one_city))) = 1"
    by (simp add: c)
  ultimately have "cities (db_after (update_weather mock_world one_city))
      = [Paris\<lparr>temperature := Some 10, updated_at := Some 2000000\<rparr>]"
    by (cases "cities (db_after (update_weather mock_world one_city))") auto
  with gate ne f r show ?thesis by simp
qed

text \<open>
  C6 (as the specification has it) fails: a refresh that updates one city and a refresh
  that updates three cities return the same value, so the value returned does not carry
  the count.
\<close>

theorem refresh_result_carries_no_count:
  "returned (update_weather mock_world one_city) = Inr (RedirectResponse ''/'' 303)
   \<and> returned (update_weather mock_world three_cities) = Inr (RedirectResponse ''/'' 303)
   \<and> length (cities (db_after (update_weather mock_world one_city))) = 1
   \<and> length (cities (db_after (update_weather mock_world three_cities))) = 3"
proof -
  have g1: "check_update_cooldown (clock_gate mock_world) one_city"
    by (simp add: check_update_cooldown_def order_by_updated_at_desc_def first_def
        one_city_def Paris_def)
  have g3: "check_update_cooldown (clock_gate mock_world) three_cities"
    by (simp add: check_update_cooldown_def order_by_updated_at_desc_def first_def
        three_cities_def Paris_def Berlin_def Rome_def)
  have n1: "cities one_city \<noteq> []" by (simp add: one_city_def)
  have n3: "cities three_cities \<noteq> []" by (simp add: three_cities_def)
  have t1: "gather (tasks mock_world (cities one_city)) = Inr [JNum 10]"
    by (simp add: gather_def tasks_def enumerate_eq_zip fetch_weather_def mock_world_def
        mock_get_def answer_def one_city_def Paris_def)
  have t3: "gather (tasks mock_world (cities three_cities)) = Inr [JNum 10, JNum 15, JNum 20]"
    by (simp add: gather_def tasks_def enumerate_eq_zip fetch_weather_def mock_world_def
        mock_get_def answer_def three_cities_def Paris_def Berlin_def Rome_def)
  have b1: "bind_all (float_of_str mock_world) [JNum 10] = Inr [Some 10]"
    by simp
  have b3: "bind_all (float_of_str mock_world) [JNum 10, JNum 15, JNum 20]
      = Inr [Some 10, Some 15, Some 20]"
    by simp
  show ?thesis
    unfolding update_weather_written[OF g1 n1 t1 b1] update_weather_written[OF g3 n3 t3 b3]
    by (simp add: one_city_def three_cities_def)
qed

text \<open>
  C9. On a store without cities the gate permits, the request raises the 400 of the
  no-cities message, no \<open>fetch_weather\<close> is called and nothing is written.
\<close>

theorem refresh_without_cities:
  "cities db = [] \<Longrightarrow>
   check_update_cooldown (clock_gate w) db
   \<and> update_weather w db =
       \<lparr>returned = Inl (HTTPException 400 NoCityData), db_after = db, fetch_calls = []\<rparr>"
  by (simp add: update_weather_def check_update_cooldown_empty)

theorem refresh_without_cities_witness:
  "cities no_cities = []
   \<and> update_weather mock_world no_cities =
       \<lparr>returned = Inl (HTTPException 400 NoCityData), db_after = no_cities, fetch_calls = []\<rparr>"
proof -
  have e: "cities no_cities = []" by (simp add: no_cities_def)
  from refresh_without_cities[OF e, of mock_world] e show ?thesis by simp
qed

text \<open>
  C10. In a refresh in which the gate permits and every fetch succeeds, returning its
  temperature, the i-th city of the store receives the temperature that the fetch for its
  own coordinates returned, and keeps its identity and coordinates: results are paired
  with cities by position.
\<close>

theorem refresh_pairs_temperature_with_city:
  assumes "check_update_cooldown (clock_gate w) db"
    and "\<forall>j<length (cities db). \<exists>t. fetched w (cities db) j = Inr (JNum t)"
    and "i < length (cities db)"
    and "fetch_weather (http_get w i) (latitude (cities db ! i)) (longitude (cities db ! i))
           = Inr (JNum t)"
  shows "temperature (cities (db_after (update_weather w db)) ! i) = Some t
    \<and> city_id (cities (db_after (update_weather w db)) ! i) = city_id (cities db ! i)
    \<and> name (cities (db_after (update_weather w db)) ! i) = name (cities db ! i)
    \<and> latitude (cities (db_after (update_weather w db)) ! i) = latitude (cities db ! i)
    \<and> longitude (cities (db_after (update_weather w db)) ! i) = longitude (cities db ! i)"
proof -
  from assms(3) have ne: "cities db \<noteq> []" by auto
  from update_weather_numbers[OF assms(1) ne assms(2)]
  obtain ts where len: "length ts = length (cities db)"
    and nth: "\<forall>j<length (cities db). fetched w (cities db) j = Inr (JNum (ts ! j))"
    and run: "db_after (update_weather w db) = db\<lparr>cities :=
        map (\<lambda>(city, temp). city\<lparr>temperature := temp, updated_at := Some (clock_write w)\<rparr>)
            (zip (cities db) (map Some ts))\<rparr>"
    by auto
  from nth assms(3,4) have t: "ts ! i = t" by (simp add: fetched_def)
  have "cities (db_after (update_weather w db)) ! i
      = (cities db ! i)\<lparr>temperature := Some t, updated_at := Some (clock_write w)\<rparr>"
    unfolding run using len assms(3) t by simp
  then show ?thesis by simp
qed

theorem refresh_pairs_temperature_with_city_witness:
  "check_update_cooldown (clock_gate mock_world) three_cities
   \<and> fetch_weather (http_get mock_world 0) (latitude Paris) (longitude Paris) = Inr (JNum 10)
   \<and> fetch_weather (http_get mock_world 1) (latitude Berlin) (longitude Berlin) = Inr (JNum 15)
   \<and> fetch_weather (http_get mock_world 2) (latitude Rome) (longitude Rome) = Inr (JNum 20)
   \<and> name (cities (db_after (update_weather mock_world three_cities)) ! 0) = ''Paris''
   \<and> temperature (cities (db_after (update_weather mock_world three_cities)) ! 0) = Some 10
   \<and> name (cities (db_after (update_weather mock_world three_cities)) ! 1) = ''Berlin''
   \<and> temperature (cities (db_after (update_weather mock_world three_cities)) ! 1) = Some 15
   \<and> name (cities (db_after (update_weather mock_world three_cities)) ! 2) = ''Rome''
   \<and> temperature (cities (db_after (update_weather mock_world three_cities)) ! 2) = Some 20"
proof -
  have gate: "check_update_cooldown (clock_gate mock_world) three_cities"
    by (simp add: check_update_cooldown_def order_by_updated_at_desc_def first_def
        three_cities_def Paris_def Berlin_def Rome_def)
  have ok: "\<forall>j<length (cities three_cities). \<exists>t. fetched mock_world (cities three_cities) j = Inr (JNum t)"
    by (simp add: fetched_def fetch_weather_def mock_world_def mock_get_def answer_def
        three_cities_def Paris_def Berlin_def Rome_def All_less_Suc2 numeral_3_eq_3)
  have c: "cities three_cities ! 0 = Paris" "cities three_cities ! 1 = Berlin"
      "cities three_cities ! 2 = Rome"
      "(0::nat) < length (cities three_cities)" "(1::nat) < length (cities three_cities)"
      "(2::nat) < length (cities three_cities)"
    by (simp_all add: three_cities_def)
  have p: "fetch_weather (http_get mock_world 0) (latitude Paris) (longitude Paris) = Inr (JNum 10)"
    by (simp add: fetch_weather_def mock_world_def mock_get_def answer_def Paris_def)
  have b: "fetch_weather (http_get mock_world 1) (latitude Berlin) (longitude Berlin) = Inr (JNum 15)"
    by (simp add: fetch_weather_def mock_world_def mock_get_def answer_def Berlin_def)
  have r: "fetch_weather (http_get mock_world 2) (latitude Rome) (longitude Rome) = Inr (JNum 20)"
    by (simp add: fetch_weather_def mock_world_def mock_get_def answer_def Rome_def)
  have f0: "fetch_weather (http_get mock_world 0) (latitude (cities three_cities ! 0))
      (longitude (cities three_cities ! 0)) = Inr (JNum 10)"
    unfolding c(1) by (rule p)
  have f1: "fetch_weather (http_get mock_world 1) (latitude (cities three_cities ! 1))
      (longitude (cities three_cities ! 1)) = Inr (JNum 15)"
    unfolding c(2) by (rule b)
  have f2: "fetch_weather (http_get mock_world 2) (latitude (cities three_cities ! 2))
      (longitude (cities three_cities ! 2)) = Inr (JNum 20)"
    unfolding c(3) by (rule r)
  have n: "name Paris = ''Paris''" "name Berlin = ''Berlin''" "name Rome = ''Rome''"
    by (simp_all add: Paris_def Berlin_def Rome_def)
  from refresh_pairs_temperature_with_city[OF gate ok c(4) f0]
    refresh_pairs_temperature_with_city[OF gate ok c(5) f1]
    refresh_pairs_temperature_with_city[OF gate ok c(6) f2]
    gate p b r
  show ?thesis unfolding c(1,2,3) n by simp
qed

text \<open>
  C8. After a refresh that returned, having written at the reading \<open>clock_write w\<close> of
  the clock, a second refresh whose gate reads the clock less than 900 seconds later
  raises the 400 of the cooldown message, calls no \<open>fetch_weather\<close> and leaves the
  store as the first refresh wrote it.
\<close>

theorem refresh_twice_within_cooldown:
  assumes "returned (update_weather w db) = Inr r"
    and "total_seconds (clock_gate w' - clock_write w) < 900"
  shows "update_weather w' (db_after (update_weather w db)) =
     \<lparr>returned = Inl (HTTPException 400 CooldownNotElapsed),
      db_after = db_after (update_weather w db), fetch_calls = []\<rparr>"
proof -
  from update_weather_returns[OF assms(1)]
  obtain vs xs where gate: "check_update_cooldown (clock_gate w) db"
    and ne: "cities db \<noteq> []"
    and g: "gather (tasks w (cities db)) = Inr vs"
    and b: "bind_all (float_of_str w) vs = Inr xs" by blast
  from gather_tasks_Inr[OF g] bind_all_Inr[OF b]
  have len: "length xs = length (cities db)" by simp
  let ?db' = "db_after (update_weather w db)"
  have cs: "cities ?db' =
      map (\<lambda>(city, temp). city\<lparr>temperature := temp, updated_at := Some (clock_write w)\<rparr>)
          (zip (cities db) xs)"
    by (simp add: update_weather_written[OF gate ne g b])
  have ne': "cities ?db' \<noteq> []"
    unfolding cs using ne len by (cases "cities db"; cases xs) auto
  have all: "\<forall>c\<in>set (cities ?db'). updated_at c = Some (clock_write w)"
    unfolding cs by auto
  have "check_update_cooldown (clock_gate w') ?db'
      = (900 * 1000000 \<le> clock_gate w' - clock_write w)"
    using ne' all by (rule check_update_cooldown_all_stamped)
  also have "\<dots> = (900 \<le> total_seconds (clock_gate w' - clock_write w))"
    by (simp only: total_seconds_ge)
  finally have "\<not> check_update_cooldown (clock_gate w') ?db'"
    using assms(2) by simp
  then show ?thesis by (rule update_weather_refused)
qed

theorem refresh_twice_within_cooldown_witness:
  "returned (update_weather mock_world three_cities) = Inr (RedirectResponse ''/'' 303)
   \<and> total_seconds (clock_gate later_world - clock_write mock_world) < 900
   \<and> update_weather later_world (db_after (update_weather mock_world three_cities)) =
       \<lparr>returned = Inl (HTTPException 400 CooldownNotElapsed),
        db_after = db_after (update_weather mock_world three_cities), fetch_calls = []\<rparr>"
proof -
  have r: "returned (update_weather mock_world three_cities) = Inr (RedirectResponse ''/'' 303)"
    by (simp add: update_weather_def mock_world_def three_cities_def Paris_def Berlin_def
        Rome_def check_update_cooldown_def order_by_updated_at_desc_def first_def gather_def
        tasks_def fetch_weather_def mock_get_def answer_def enumerate_eq_zip)
  have t: "total_seconds (clock_gate later_world - clock_write mock_world) < 900"
    by (simp add: total_seconds_def later_world_def mock_world_def)
  from refresh_twice_within_cooldown[OF r t] r t show ?thesis by simp
qed

section \<open>Store invariant\<close>

text \<open>
  Adding a city and resetting to the defaults keep temperature and \<open>updated_at\<close>
  paired. A refresh keeps them paired as long as no fetch returns \<open>None\<close>: every other
  value that the commit accepts is stored as a number.
\<close>

lemma add_city_paired:
  "store_invariant db \<Longrightarrow> store_invariant (db_after (add_city name' latitude' longitude' db))"
  by (simp add: add_city_def store_invariant_def paired_def Let_def)

lemma reset_cities_paired:
  "store_invariant db \<Longrightarrow> store_invariant (db_after (reset_cities db))"
  by (auto simp: reset_cities_def reset_cities_to_default_def store_invariant_def paired_def
      Let_def list_all_iff)

lemma to_float_None: "to_float f v = Inr None \<longleftrightarrow> v = JNull"
  by (cases v) (auto split: option.splits)

lemma update_weather_paired:
  assumes inv: "store_invariant db"
    and nonnull: "\<forall>i<length (cities db). fetched w (cities db) i \<noteq> Inr JNull"
  shows "store_invariant (db_after (update_weather w db))"
proof (cases rule: update_weather_cases[of w db])
  case refused
  with inv show ?thesis by (simp add: update_weather_refused)
next
  case empty
  with inv show ?thesis by (simp add: update_weather_empty)
next
  case (raised e)
  with inv show ?thesis by (simp add: update_weather_raised)
next
  case (unbound vs e)
  with inv show ?thesis by (simp add: update_weather_unbound)
next
  case (written vs xs)
  from gather_tasks_Inr[OF written(3)]
  have lv: "length vs = length (cities db)"
    and nv: "\<forall>i<length (cities db). fetched w (cities db) i = Inr (vs ! i)" by simp_all
  from bind_all_Inr[OF written(4)]
  have lx: "length xs = length vs"
    and nx: "\<forall>i<length vs. to_float (float_of_str w) (vs ! i) = Inr (xs ! i)" by simp_all
  have "xs ! i \<noteq> None" if "i < length xs" for i
  proof
    assume "xs ! i = None"
    with nx that lx have "to_float (float_of_str w) (vs ! i) = Inr None" by simp
    then have "vs ! i = JNull" by (simp add: to_float_None)
    with nv nonnull that lx lv show False by simp
  qed
  then have "\<forall>x\<in>set xs. x \<noteq> None" by (metis in_set_conv_nth)
  then have "\<forall>p\<in>set (zip (cities db) xs). snd p \<noteq> None"
    by (metis set_zip_rightD prod.collapse)
  then show ?thesis
    by (auto simp: update_weather_written[OF written] store_invariant_def paired_def list_all_iff)
qed

lemma handlers_preserve_pairing_unless_null:
  assumes "store_invariant db"
  shows "store_invariant (db_after (add_city name' latitude' longitude' db))
    \<and> store_invariant (db_after (reset_cities db))
    \<and> ((\<forall>i<length (cities db). fetched w (cities db) i \<noteq> Inr JNull)
         \<longrightarrow> store_invariant (db_after (update_weather w db)))"
  using assms by (simp add: add_city_paired reset_cities_paired update_weather_paired)

text \<open>
  C7. The refresh does not keep the pairing. When the service answers
  \<open>{"current_weather": {"temperature": null}}\<close>, \<open>fetch_weather\<close> returns \<open>None\<close>, the
  refresh returns its redirect, and the city is committed with its temperature unset
  and its \<open>updated_at\<close> set: a store in which the two were paired is left with a city
  in which they are not.
\<close>

theorem refresh_null_temperature_breaks_pairing:
  "store_invariant one_city
   \<and> fetch_weather (http_get null_temperature_world 0) (latitude Paris) (longitude Paris)
       = Inr JNull
   \<and> returned (update_weather null_temperature_world one_city)
       = Inr (RedirectResponse ''/'' 303)
   \<and> cities (db_after (update_weather null_temperature_world one_city))
       = [Paris\<lparr>temperature := None, updated_at := Some 2000000\<rparr>]
   \<and> \<not> store_invariant (db_after (update_weather null_temperature_world one_city))"
proof -
  have gate: "check_update_cooldown (clock_gate null_temperature_world) one_city"
    by (simp add: check_update_cooldown_def order_by_updated_at_desc_def first_def
        one_city_def Paris_def)
  have ne: "cities one_city \<noteq> []" by (simp add: one_city_def)
  have f: "fetch_weather (http_get null_temperature_world 0) (latitude Paris) (longitude Paris)
      = Inr JNull"
    by (simp add: fetch_weather_def null_temperature_world_def null_temperature_get_def)
  have g: "gather (tasks null_temperature_world (cities one_city)) = Inr [JNull]"
    by (simp add: gather_def tasks_def enumerate_eq_zip fetch_weather_def
        null_temperature_world_def null_temperature_get_def one_city_def)
  have b: "bind_all (float_of_str null_temperature_world) [JNull] = Inr [None]"
    by simp
  have i: "store_invariant one_city"
    by (simp add: store_invariant_def paired_def one_city_def Paris_def)
  show ?thesis
    unfolding update_weather_written[OF gate ne g b]
    using i f
    by (simp add: store_invariant_def paired_def one_city_def null_temperature_world_def
        Paris_def)
qed

end
